theory Spec2Isabelle
  imports Main
begin

section \<open>The search bar: web/src/components/search/SearchBar.tsx\<close>

subsection \<open>Data\<close>

text \<open>
  The part of an \<^verbatim>\<open>HTMLTextAreaElement\<close> that the component reads or writes: its
  \<^verbatim>\<open>value\<close> and its inline \<^verbatim>\<open>style.height\<close>, a CSS length kept as the string the
  code assigns.
\<close>

record textarea =
  text_value :: string
  style_height :: string

text \<open>
  The events the two handlers receive. \<^verbatim>\<open>event.target\<close> is the text area,
  \<^verbatim>\<open>event.preventDefault()\<close> raises \<^verbatim>\<open>defaultPrevented\<close>; a keyboard event adds
  \<^verbatim>\<open>key\<close> and \<^verbatim>\<open>shiftKey\<close>.
\<close>

record dom_event =
  target :: textarea
  defaultPrevented :: bool

record keyboard_event = dom_event +
  key :: string
  shiftKey :: bool

text \<open>
  \<^verbatim>\<open>SearchBarProps\<close>. The two callbacks \<^verbatim>\<open>setQuery\<close> and \<^verbatim>\<open>onSearch\<close> belong to the
  parent and are opaque to the component: a call of one of them is recorded as an
  \<open>action\<close> below, so the record keeps the data field only. A callback is taken to
  leave the text area alone (the parent answers by rendering the component again).
\<close>

record props =
  query :: string

text \<open>
  What a handler does to the outside, in program order: the calls of the parent's
  callbacks, the call of \<^verbatim>\<open>preventDefault\<close>, every assignment to \<^verbatim>\<open>style.height\<close>
  and every read of \<^verbatim>\<open>scrollHeight\<close> with the number that was read.
\<close>

datatype action =
  SetQuery string
  | OnSearch
  | PreventDefault
  | StyleHeightAssign string
  | ScrollHeightRead nat

subsection \<open>The template literal \<^verbatim>\<open>`${newHeight}px`\<close>\<close>

text \<open>
  \<^verbatim>\<open>scrollHeight\<close> is a non-negative integer, so the conversion of the number in the
  template literal is its decimal numeral.
\<close>

definition digitChar :: "nat \<Rightarrow> char" where
  "digitChar d = ''0123456789'' ! d"

fun toString :: "nat \<Rightarrow> string" where
  "toString n = (if n < 10 then [digitChar n] else toString (n div 10) @ [digitChar (n mod 10)])"

declare toString.simps [simp del]

definition px :: "nat \<Rightarrow> string" where
  "px n = toString n @ ''px''"

subsection \<open>The handlers\<close>

text \<open>
  \<^verbatim>\<open>handleChange\<close>. The host's layout is the parameter \<open>scrollHeight\<close>: the number
  \<^verbatim>\<open>target.scrollHeight\<close> yields for the text area as it is at the moment of the read.
  The handler returns the event, whose target it has mutated, and its actions.
\<close>

definition handleChange :: "(textarea \<Rightarrow> nat) \<Rightarrow> dom_event \<Rightarrow> dom_event \<times> action list" where
  "handleChange scrollHeight event =
    (let tgt0 = target event;
         log1 = [SetQuery (text_value tgt0)];
         tgt1 = tgt0\<lparr>style_height := ''24px''\<rparr>;
         log2 = log1 @ [StyleHeightAssign ''24px''];
         newHeight = scrollHeight tgt1;
         log3 = log2 @ [ScrollHeightRead newHeight];
         tgt2 = tgt1\<lparr>style_height := px newHeight\<rparr>;
         log4 = log3 @ [StyleHeightAssign (px newHeight)]
     in (event\<lparr>target := tgt2\<rparr>, log4))"

text \<open>\<^verbatim>\<open>handleKeyDown\<close>: Enter without Shift searches and cancels the default action.\<close>

definition handleKeyDown :: "keyboard_event \<Rightarrow> keyboard_event \<times> action list" where
  "handleKeyDown event =
    (if key event = ''Enter'' \<and> \<not> shiftKey event
     then (event\<lparr>defaultPrevented := True\<rparr>, [OnSearch, PreventDefault])
     else (event, []))"

subsection \<open>The component\<close>

text \<open>
  What \<^verbatim>\<open>SearchBar\<close> renders, as far as behaviour goes: the \<^verbatim>\<open>value\<close> attribute of the
  text area and its two handlers. The component calls no state hook; the rendered
  element is a function of the props.
\<close>

record element =
  value_attr :: string
  onChange :: "dom_event \<Rightarrow> dom_event \<times> action list"
  onKeyDown :: "keyboard_event \<Rightarrow> keyboard_event \<times> action list"

definition SearchBar :: "(textarea \<Rightarrow> nat) \<Rightarrow> props \<Rightarrow> element" where
  "SearchBar scrollHeight p =
    \<lparr>value_attr = query p,
     onChange = handleChange scrollHeight,
     onKeyDown = handleKeyDown\<rparr>"

subsection \<open>The host's dispatch of a key-down event\<close>

text \<open>
  The browser runs the handler and then performs the key's default action on the text
  area (for Enter: inserting a line break), unless the handler has cancelled it. The
  default action is a parameter.
\<close>

definition dispatchKeyDown ::
  "(keyboard_event \<Rightarrow> textarea \<Rightarrow> textarea) \<Rightarrow> (keyboard_event \<Rightarrow> keyboard_event \<times> action list)
     \<Rightarrow> keyboard_event \<Rightarrow> textarea \<times> action list" where
  "dispatchKeyDown defaultAction handler event =
    (let (event', log) = handler event
     in (if defaultPrevented event' then target event'
         else defaultAction event' (target event'),
         log))"

subsection \<open>Reading a log\<close>

fun isSetQuery :: "action \<Rightarrow> bool" where
  "isSetQuery (SetQuery s) = True"
| "isSetQuery a = False"

fun isHeightAction :: "action \<Rightarrow> bool" where
  "isHeightAction (StyleHeightAssign h) = True"
| "isHeightAction (ScrollHeightRead n) = True"
| "isHeightAction a = False"

text \<open>
  The position of the first action of a kind, and the two orders in which the
  notification of the parent and the resize of the text area can come: the resize
  (the height actions) wholly before the first \<open>SetQuery\<close>, or the notification
  (every \<open>SetQuery\<close>) wholly before the first height action.
\<close>

fun firstIndex :: "('a \<Rightarrow> bool) \<Rightarrow> 'a list \<Rightarrow> nat option" where
  "firstIndex P [] = None"
| "firstIndex P (x # xs) = (if P x then Some 0 else map_option Suc (firstIndex P xs))"

definition resizePrecedesNotify :: "action list \<Rightarrow> bool" where
  "resizePrecedesNotify log =
    (case firstIndex isSetQuery log of
       None \<Rightarrow> False
     | Some i \<Rightarrow> filter isHeightAction (take i log) \<noteq> []
                 \<and> filter isHeightAction (drop i log) = [])"

definition notifyPrecedesResize :: "action list \<Rightarrow> bool" where
  "notifyPrecedesResize log =
    (case firstIndex isHeightAction log of
       None \<Rightarrow> False
     | Some i \<Rightarrow> filter isSetQuery (take i log) \<noteq> []
                 \<and> filter isSetQuery (drop i log) = [])"

subsection \<open>Reading a length in px back\<close>

text \<open>
  The number a string of the form \<^verbatim>\<open><digits>px\<close> denotes; \<open>None\<close> for any other
  string. It gives the strings assigned to \<^verbatim>\<open>style.height\<close> their meaning.
\<close>

definition digitVal :: "char \<Rightarrow> nat option" where
  "digitVal c =
    (let n = (of_char c :: nat) in if 48 \<le> n \<and> n < 58 then Some (n - 48) else None)"

fun parseDigits :: "nat \<Rightarrow> string \<Rightarrow> nat option" where
  "parseDigits acc [] = Some acc"
| "parseDigits acc (c # cs) =
     (case digitVal c of None \<Rightarrow> None | Some d \<Rightarrow> parseDigits (10 * acc + d) cs)"

definition pxValue :: "string \<Rightarrow> nat option" where
  "pxValue s =
    (if 2 < length s \<and> drop (length s - 2) s = ''px''
     then parseDigits 0 (take (length s - 2) s) else None)"

section \<open>Decimal numerals and px lengths\<close>

lemma px_24: "px 24 = ''24px''"
  by (simp add: px_def toString.simps digitChar_def)

lemma digitVal_digitChar: "d < 10 \<Longrightarrow> digitVal (digitChar d) = Some d"
proof -
  assume "d < 10"
  then consider "d = 0" | "d = 1" | "d = 2" | "d = 3" | "d = 4"
    | "d = 5" | "d = 6" | "d = 7" | "d = 8" | "d = 9"
    by atomize_elim arith
  then show ?thesis
    by cases (simp_all add: digitVal_def digitChar_def)
qed

lemma parseDigits_snoc:
  "parseDigits acc (cs @ [c]) =
     (case parseDigits acc cs of
        None \<Rightarrow> None
      | Some v \<Rightarrow> (case digitVal c of None \<Rightarrow> None | Some d \<Rightarrow> Some (10 * v + d)))"
  by (induction cs arbitrary: acc) (auto split: option.splits)

lemma parseDigits_toString: "parseDigits 0 (toString n) = Some n"
proof (induction n rule: toString.induct)
  case (1 n)
  show ?case
  proof (cases "n < 10")
    case True
    then show ?thesis
      by (simp add: toString.simps [of n] digitVal_digitChar)
  next
    case False
    then have "parseDigits 0 (toString (n div 10)) = Some (n div 10)"
      using 1 by simp
    then show ?thesis
      using False by (simp add: toString.simps [of n] parseDigits_snoc digitVal_digitChar)
  qed
qed

lemma toString_nonempty: "toString n \<noteq> []"
  by (subst toString.simps) simp

text \<open>The string \<^verbatim>\<open>`${n}px`\<close> denotes \<open>n\<close> pixels, and no other number.\<close>

lemma pxValue_px: "pxValue (px n) = Some n"
proof -
  have "0 < length (toString n)"
    using toString_nonempty [of n] by simp
  then show ?thesis
    by (simp add: pxValue_def px_def parseDigits_toString)
qed

lemma px_inject: "px m = px n \<Longrightarrow> m = n"
proof -
  assume "px m = px n"
  then have "pxValue (px m) = pxValue (px n)" by simp
  then show "m = n" by (simp add: pxValue_px)
qed

text \<open>The log and the final state of \<^verbatim>\<open>handleChange\<close>, spelled out.\<close>

lemma handleChange_log:
  "snd (handleChange scrollHeight event) =
     [SetQuery (text_value (target event)),
      StyleHeightAssign ''24px'',
      ScrollHeightRead (scrollHeight ((target event)\<lparr>style_height := ''24px''\<rparr>)),
      StyleHeightAssign (px (scrollHeight ((target event)\<lparr>style_height := ''24px''\<rparr>)))]"
  by (simp add: handleChange_def Let_def)

lemma handleChange_state:
  "fst (handleChange scrollHeight event) =
     event\<lparr>target := (target event)
       \<lparr>style_height := px (scrollHeight ((target event)\<lparr>style_height := ''24px''\<rparr>))\<rparr>\<rparr>"
  by (simp add: handleChange_def Let_def)


section \<open>Properties\<close>

text \<open>
  C1. A key-down event with key "Enter" and Shift not pressed: the handler calls
  onSearch exactly once, calls preventDefault, and the host therefore leaves the text
  area as it is, whatever the default action would have done (no line break is inserted).
\<close>

theorem handleKeyDown_enter_submits:
  "handleKeyDown \<lparr>target = t, defaultPrevented = d, key = ''Enter'', shiftKey = False\<rparr>
     = (\<lparr>target = t, defaultPrevented = True, key = ''Enter'', shiftKey = False\<rparr>,
        [OnSearch, PreventDefault])
   \<and> count_list (snd (handleKeyDown \<lparr>target = t, defaultPrevented = d, key = ''Enter'', shiftKey = False\<rparr>))
        OnSearch = 1
   \<and> dispatchKeyDown defaultAction handleKeyDown
        \<lparr>target = t, defaultPrevented = d, key = ''Enter'', shiftKey = False\<rparr>
     = (t, [OnSearch, PreventDefault])"
  by (simp add: handleKeyDown_def dispatchKeyDown_def)

text \<open>
  C2. For every string \<open>s\<close>: the content-change handler, run on an event whose target
  holds \<open>s\<close>, calls setQuery exactly once, within the run of the handler itself, with
  the argument \<open>s\<close> unchanged; it is the first thing the handler does, and the text of
  the target is still \<open>s\<close> afterwards.
\<close>

theorem handleChange_notifies_once:
  "filter isSetQuery
     (snd (handleChange scrollHeight
        \<lparr>target = \<lparr>text_value = s, style_height = h\<rparr>, defaultPrevented = d\<rparr>))
     = [SetQuery s]
   \<and> count_list
       (snd (handleChange scrollHeight
          \<lparr>target = \<lparr>text_value = s, style_height = h\<rparr>, defaultPrevented = d\<rparr>))
       (SetQuery s) = 1
   \<and> hd (snd (handleChange scrollHeight
          \<lparr>target = \<lparr>text_value = s, style_height = h\<rparr>, defaultPrevented = d\<rparr>))
     = SetQuery s
   \<and> text_value (target (fst (handleChange scrollHeight
          \<lparr>target = \<lparr>text_value = s, style_height = h\<rparr>, defaultPrevented = d\<rparr>)))
     = s"
  by (simp add: handleChange_log handleChange_state)

text \<open>
  C3. A key-down event with key "Enter" and Shift pressed: the handler calls nothing
  (no onSearch, no preventDefault) and returns the event as it came, so for an event
  not yet cancelled the host performs the default action on the text area.
\<close>

theorem handleKeyDown_shift_enter_passes:
  "handleKeyDown \<lparr>target = t, defaultPrevented = d, key = ''Enter'', shiftKey = True\<rparr>
     = (\<lparr>target = t, defaultPrevented = d, key = ''Enter'', shiftKey = True\<rparr>, [])
   \<and> count_list (snd (handleKeyDown \<lparr>target = t, defaultPrevented = d, key = ''Enter'', shiftKey = True\<rparr>))
        OnSearch = 0
   \<and> dispatchKeyDown defaultAction handleKeyDown
        \<lparr>target = t, defaultPrevented = False, key = ''Enter'', shiftKey = True\<rparr>
     = (defaultAction \<lparr>target = t, defaultPrevented = False, key = ''Enter'', shiftKey = True\<rparr> t,
        [])"
  by (simp add: handleKeyDown_def dispatchKeyDown_def)

text \<open>
  C4. On every content change the height actions of the handler are, in this order:
  the assignment of the baseline "24px" (the length of 24 pixels) to the style height,
  the read of the scroll height of the text area as it is with that baseline, and the
  assignment of the number read, as a length in pixels, to the style height, which is
  the height the text area ends with.
\<close>

theorem handleChange_reset_then_measure:
  "filter isHeightAction (snd (handleChange scrollHeight event))
     = [StyleHeightAssign ''24px'',
        ScrollHeightRead (scrollHeight ((target event)\<lparr>style_height := ''24px''\<rparr>)),
        StyleHeightAssign (px (scrollHeight ((target event)\<lparr>style_height := ''24px''\<rparr>)))]
   \<and> pxValue ''24px'' = Some 24
   \<and> style_height (target (fst (handleChange scrollHeight event)))
     = px (scrollHeight ((target event)\<lparr>style_height := ''24px''\<rparr>))
   \<and> pxValue (style_height (target (fst (handleChange scrollHeight event))))
     = Some (scrollHeight ((target event)\<lparr>style_height := ''24px''\<rparr>))"
proof -
  have "pxValue ''24px'' = Some 24"
    using pxValue_px [of 24] by (simp add: px_24)
  then show ?thesis
    by (simp add: handleChange_log handleChange_state pxValue_px)
qed

text \<open>
  C5. Shrink correctness. The text area has been resized for a content \<open>s0\<close> (say the
  three lines a, b, c) and its content becomes \<open>s\<close> (say the single line a). The
  height after the change is the height the handler computes for a text area that
  holds \<open>s\<close> and has never held anything else, whatever its height \<open>h1\<close> was: the
  measure of \<open>s\<close> at the baseline. Nothing of the earlier, taller height remains.
\<close>

theorem handleChange_shrink:
  "style_height (target (fst (handleChange scrollHeight
      \<lparr>target = (target (fst (handleChange scrollHeight
                    \<lparr>target = \<lparr>text_value = s0, style_height = h0\<rparr>, defaultPrevented = d0\<rparr>)))
                 \<lparr>text_value := s\<rparr>,
       defaultPrevented = d\<rparr>)))
     = style_height (target (fst (handleChange scrollHeight
         \<lparr>target = \<lparr>text_value = s, style_height = h1\<rparr>, defaultPrevented = d1\<rparr>)))
   \<and> style_height (target (fst (handleChange scrollHeight
         \<lparr>target = \<lparr>text_value = s, style_height = h1\<rparr>, defaultPrevented = d1\<rparr>)))
     = px (scrollHeight \<lparr>text_value = s, style_height = ''24px''\<rparr>)"
  by (simp add: handleChange_state)

text \<open>
  C6, as stated: on each input event the resize of the text area precedes the call of
  the change callback. The handler does it the other way round; for the text "cats"
  and a layout that measures 48 everywhere, the SetQuery comes first in the log and
  the three height actions follow it.
\<close>

theorem resize_precedes_notify_counterexample:
  "\<not> resizePrecedesNotify
       (snd (handleChange (\<lambda>t. 48)
          \<lparr>target = \<lparr>text_value = ''cats'', style_height = []\<rparr>, defaultPrevented = False\<rparr>))"
  by (simp add: handleChange_log resizePrecedesNotify_def)

text \<open>
  C6, amended: on each input event the handler first calls the change callback with
  the new text and then, in the same run, resets the height to the baseline, measures
  and sets the height: the call of the change callback precedes the resize.
\<close>

theorem handleChange_notify_precedes_resize:
  "notifyPrecedesResize (snd (handleChange scrollHeight event))
   \<and> snd (handleChange scrollHeight event)
     = SetQuery (text_value (target event))
       # filter isHeightAction (snd (handleChange scrollHeight event))
   \<and> length (filter isHeightAction (snd (handleChange scrollHeight event))) = 3"
  by (simp add: handleChange_log notifyPrecedesResize_def)

text \<open>
  C7. The controlled-component invariant. The value the component displays is the
  query of its props, for every props. Neither handler assigns to the text of the
  text area: the change handler leaves \<^verbatim>\<open>target.value\<close> as it found it and asks for
  the change through setQuery alone, the key handler leaves the whole text area
  untouched and never calls setQuery.
\<close>

theorem SearchBar_controlled:
  "value_attr (SearchBar scrollHeight p) = query p
   \<and> text_value (target (fst (onChange (SearchBar scrollHeight p) event)))
     = text_value (target event)
   \<and> filter isSetQuery (snd (onChange (SearchBar scrollHeight p) event))
     = [SetQuery (text_value (target event))]
   \<and> target (fst (onKeyDown (SearchBar scrollHeight p) kevent)) = target kevent
   \<and> filter isSetQuery (snd (onKeyDown (SearchBar scrollHeight p) kevent)) = []"
  by (simp add: SearchBar_def handleChange_log handleChange_state handleKeyDown_def)

text \<open>
  C8. A key-down event whose key is not "Enter": the handler calls nothing (no
  onSearch, no preventDefault), returns the event as it came, and the host's dispatch
  treats the default action as it would without the handler. The key handler performs
  no height action and leaves the text area alone on any event at all, so every change
  of the height comes from the content-change handler.
\<close>

theorem handleKeyDown_other_key:
  "key event \<noteq> ''Enter'' \<Longrightarrow>
     handleKeyDown event = (event, [])
     \<and> dispatchKeyDown defaultAction handleKeyDown event
       = (if defaultPrevented event then target event else defaultAction event (target event), [])
     \<and> (\<forall>e. filter isHeightAction (snd (handleKeyDown e)) = []
            \<and> target (fst (handleKeyDown e)) = target e)"
  by (simp add: handleKeyDown_def dispatchKeyDown_def)

theorem handleKeyDown_other_key_witness:
  "''a'' \<noteq> ''Enter''
   \<and> handleKeyDown
       \<lparr>target = \<lparr>text_value = ''cats'', style_height = ''24px''\<rparr>, defaultPrevented = False,
        key = ''a'', shiftKey = False\<rparr>
     = (\<lparr>target = \<lparr>text_value = ''cats'', style_height = ''24px''\<rparr>, defaultPrevented = False,
         key = ''a'', shiftKey = False\<rparr>, [])"
  using handleKeyDown_other_key
    [where event = "\<lparr>target = \<lparr>text_value = ''cats'', style_height = ''24px''\<rparr>,
                      defaultPrevented = False, key = ''a'', shiftKey = False\<rparr>"]
  by simp

text \<open>
  C9. Deterministic re-measurement. The handler runs on a text area that holds \<open>s\<close>,
  and runs again on the text area the first run left, which still holds \<open>s\<close>: the
  second run reads the same scroll height, performs the same height actions and ends
  with the same style height as the first.
\<close>

theorem handleChange_remeasure_same:
  "(let r1 = handleChange scrollHeight
               \<lparr>target = \<lparr>text_value = s, style_height = h\<rparr>, defaultPrevented = d1\<rparr>;
        r2 = handleChange scrollHeight
               \<lparr>target = target (fst r1), defaultPrevented = d2\<rparr>
    in text_value (target (fst r1)) = s
       \<and> filter isHeightAction (snd r2) = filter isHeightAction (snd r1)
       \<and> style_height (target (fst r2)) = style_height (target (fst r1)))"
  by (simp add: Let_def handleChange_log handleChange_state)

text \<open>
  C10. The actions of the key handler are decided by the key and the Shift flag alone:
  two runs with the same key and flag agree, whatever the query of the props, the text
  and height of the text area, the layout and the cancelled flag are. With the empty
  query and an empty text area, Enter without Shift still calls onSearch exactly once.
\<close>

theorem handleKeyDown_ignores_query:
  "snd (onKeyDown (SearchBar scrollHeight \<lparr>query = q\<rparr>)
          \<lparr>target = \<lparr>text_value = v, style_height = h\<rparr>, defaultPrevented = d,
           key = k, shiftKey = sk\<rparr>)
     = snd (onKeyDown (SearchBar scrollHeight' \<lparr>query = q'\<rparr>)
          \<lparr>target = \<lparr>text_value = v', style_height = h'\<rparr>, defaultPrevented = d',
           key = k, shiftKey = sk\<rparr>)
   \<and> snd (onKeyDown (SearchBar scrollHeight \<lparr>query = []\<rparr>)
          \<lparr>target = \<lparr>text_value = [], style_height = h\<rparr>, defaultPrevented = d,
           key = ''Enter'', shiftKey = False\<rparr>)
     = [OnSearch, PreventDefault]
   \<and> count_list
        (snd (onKeyDown (SearchBar scrollHeight \<lparr>query = []\<rparr>)
          \<lparr>target = \<lparr>text_value = [], style_height = h\<rparr>, defaultPrevented = d,
           key = ''Enter'', shiftKey = False\<rparr>))
        OnSearch = 1"
  by (simp add: SearchBar_def handleKeyDown_def)

end
